theory Spec2Isabelle
  imports Complex_Main
begin

section \<open>Python values used by the CinemaOS ComfyUI nodes\<close>

text \<open>
  The nodes under \<^verbatim>\<open>src/comfyui_nodes\<close> exchange Python floats, strings and decoded JSON
  values. A Python float is modelled by \<open>pyfloat\<close>: a finite value carried as an exact real
  (rounding to 53 bits, overflow and the sign of zero are not modelled) or one of the three
  special values that \<^verbatim>\<open>float()\<close> can produce from a string. Strings are ASCII
  \<open>char list\<close>s.
\<close>

datatype pyfloat = Finite real | PosInf | NegInf | NaN


text \<open>Float multiplication \<^verbatim>\<open>a * b\<close>.\<close>

fun fsign :: "pyfloat \<Rightarrow> int" where
  "fsign (Finite r) = (if r < 0 then - 1 else if r = 0 then 0 else 1)"
| "fsign PosInf = 1"
| "fsign NegInf = - 1"
| "fsign NaN = 0"

definition fmul :: "pyfloat \<Rightarrow> pyfloat \<Rightarrow> pyfloat" where
  "fmul a b =
     (case (a, b) of
        (Finite x, Finite y) \<Rightarrow> Finite (x * y)
      | _ \<Rightarrow>
          if a = NaN \<or> b = NaN \<or> fsign a * fsign b = 0 then NaN
          else if fsign a * fsign b > 0 then PosInf else NegInf)"

text \<open>The comparisons \<^verbatim>\<open>a <= b\<close> and \<^verbatim>\<open>a >= 0\<close>; every comparison with NaN is false.\<close>

fun fle :: "pyfloat \<Rightarrow> pyfloat \<Rightarrow> bool" where
  "fle NaN _ = False"
| "fle _ NaN = False"
| "fle (Finite a) (Finite b) = (a \<le> b)"
| "fle NegInf _ = True"
| "fle _ PosInf = True"
| "fle PosInf _ = False"
| "fle _ NegInf = False"

definition fnonneg :: "pyfloat \<Rightarrow> bool" where
  "fnonneg x = fle (Finite 0) x"

subsection \<open>The builtin \<^verbatim>\<open>float(str)\<close>\<close>

definition is_space :: "char \<Rightarrow> bool" where
  "is_space c = (c \<in> set [CHR '' '', CHR 0x09, CHR 0x0A, CHR 0x0B, CHR 0x0C, CHR 0x0D,
                           CHR 0x1C, CHR 0x1D, CHR 0x1E, CHR 0x1F])"


definition strip :: "string \<Rightarrow> string" where
  "strip s = rev (dropWhile is_space (rev (dropWhile is_space s)))"










subsection \<open>Formatting\<close>

definition digit_char :: "nat \<Rightarrow> char" where
  "digit_char n = ''0123456789'' ! (n mod 10)"

fun str_nat :: "nat \<Rightarrow> string" where
  "str_nat n = (if n < 10 then [digit_char n] else str_nat (n div 10) @ [digit_char n])"

definition str_int :: "int \<Rightarrow> string" where
  "str_int i = (if i < 0 then CHR ''-'' # str_nat (nat (- i)) else str_nat (nat i))"

definition round_half_even :: "real \<Rightarrow> int" where
  "round_half_even x =
     (let f = \<lfloor>x\<rfloor>; d = x - of_int f
      in if d < 1 / 2 then f else if d > 1 / 2 then f + 1
         else if even f then f else f + 1)"

definition pad4 :: "string \<Rightarrow> string" where
  "pad4 s = replicate (4 - length s) (CHR ''0'') @ s"

text \<open>The format \<^verbatim>\<open>f"{x:.4f}"\<close>.\<close>

fun format_4f :: "pyfloat \<Rightarrow> string" where
  "format_4f (Finite r) =
     (let n = nat (round_half_even (\<bar>r\<bar> * 10000))
      in (if r < 0 then ''-'' else '''') @ str_nat (n div 10000) @ ''.''
           @ pad4 (str_nat (n mod 10000)))"
| "format_4f PosInf = ''inf''"
| "format_4f NegInf = ''-inf''"
| "format_4f NaN = ''nan''"

section \<open>Errors, JSON values and the network\<close>

text \<open>
  Exceptions are values. \<open>RequestException\<close> stands for every exception of the
  \<^verbatim>\<open>requests\<close> library (connection failures, timeouts, invalid URLs, and the
  HTTPError of \<^verbatim>\<open>raise_for_status\<close>); the other constructors are the builtin exceptions
  the nodes raise or let through.
\<close>

datatype error =
    RequestException
  | ValueError string
  | TypeError
  | ImportError string
  | NotImplementedError string
  | ZeroDivisionError
  | OSError

text \<open>Scalar JSON values as Python sees them (JSON numbers with a fraction are not modelled).\<close>

datatype pyval = PNone | PBool bool | PInt int | PStr string

type_synonym pydict = "string \<rightharpoonup> pyval"

text \<open>
  The outcome of \<^verbatim>\<open>requests.get\<close> or \<^verbatim>\<open>requests.post\<close>: a response with its
  \<^verbatim>\<open>status_code\<close> and the result of \<^verbatim>\<open>response.json()\<close> (which may itself raise), or
  an exception of the library, all of which derive from \<^verbatim>\<open>requests.RequestException\<close>.
\<close>

datatype 'j http_outcome = Response int "error + 'j" | RequestFailed

section \<open>CreditTrackerNode (credit tracker)\<close>





definition get_session_credits :: "pyfloat \<Rightarrow> pyfloat" where
  "get_session_credits session = session"






section \<open>Python helpers on JSON values and strings\<close>

text \<open>Truth value of a value in \<^verbatim>\<open>if v:\<close> and its rendering in an f-string.\<close>

fun py_truthy :: "pyval \<Rightarrow> bool" where
  "py_truthy PNone = False"
| "py_truthy (PBool b) = b"
| "py_truthy (PInt i) = (i \<noteq> 0)"
| "py_truthy (PStr s) = (s \<noteq> [])"

fun py_str :: "pyval \<Rightarrow> string" where
  "py_str PNone = ''None''"
| "py_str (PBool b) = (if b then ''True'' else ''False'')"
| "py_str (PInt i) = str_int i"
| "py_str (PStr s) = s"

text \<open>\<^verbatim>\<open>d.get(key, default)\<close>.\<close>

definition dict_get :: "pydict \<Rightarrow> string \<Rightarrow> pyval \<Rightarrow> pyval" where
  "dict_get d key dflt = (case d key of Some v \<Rightarrow> v | None \<Rightarrow> dflt)"

fun is_str :: "pyval \<Rightarrow> bool" where
  "is_str (PStr s) = True"
| "is_str _ = False"

fun join_strings :: "string \<Rightarrow> string list \<Rightarrow> string" where
  "join_strings sep [] = []"
| "join_strings sep [x] = x"
| "join_strings sep (x # y # ys) = x @ sep @ join_strings sep (y # ys)"

text \<open>\<^verbatim>\<open>sep.join(parts)\<close> raises TypeError when an item of \<open>parts\<close> is not a string.\<close>

definition py_join :: "string \<Rightarrow> pyval list \<Rightarrow> error + string" where
  "py_join sep parts =
     (if list_all is_str parts then Inr (join_strings sep (map py_str parts))
      else Inl TypeError)"

section \<open>VaultContextNode (vault context)\<close>

text \<open>
  The decoded token record. Its scalar attributes are in \<open>td_fields\<close>; the value under the
  key \<^verbatim>\<open>visuals\<close> is a list of objects and is kept apart in \<open>td_visuals\<close> (\<open>None\<close> when the key
  is absent).
\<close>

record token_data =
  td_fields :: pydict
  td_visuals :: "pydict list option"

definition build_prompt_context :: "string \<Rightarrow> token_data \<Rightarrow> error + pyval" where
  "build_prompt_context token_type token_data =
     (let name = dict_get (td_fields token_data) ''name'' (PStr '''');
          description = dict_get (td_fields token_data) ''description'' (PStr '''')
      in
      if token_type = ''character'' then
        (let age = dict_get (td_fields token_data) ''age'' (PStr '''');
             appearance = dict_get (td_fields token_data) ''appearance'' (PStr '''');
             clothing = dict_get (td_fields token_data) ''clothing'' (PStr '''');
             parts = [PStr (py_str name)]
               @ (if py_truthy age then [PStr (py_str age @ '' years old'')] else [])
               @ (if py_truthy appearance then [appearance] else [])
               @ (if py_truthy clothing then [PStr (''wearing '' @ py_str clothing)] else [])
               @ (if py_truthy description then [description] else [])
         in map_sum id PStr (py_join '', '' parts))
      else if token_type = ''location'' then
        (let setting = dict_get (td_fields token_data) ''setting'' (PStr '''');
             time_of_day = dict_get (td_fields token_data) ''time_of_day'' (PStr '''');
             weather = dict_get (td_fields token_data) ''weather'' (PStr '''');
             parts = [name]
               @ (if py_truthy setting then [setting] else [])
               @ (if py_truthy time_of_day then [PStr (''during '' @ py_str time_of_day)] else [])
               @ (if py_truthy weather then [PStr (py_str weather @ '' weather'')] else [])
               @ (if py_truthy description then [description] else [])
         in map_sum id PStr (py_join '', '' parts))
      else if token_type = ''prop'' then
        (let material = dict_get (td_fields token_data) ''material'' (PStr '''');
             color = dict_get (td_fields token_data) ''color'' (PStr '''');
             parts = [name]
               @ (if py_truthy color then [color] else [])
               @ (if py_truthy material then [PStr (''made of '' @ py_str material)] else [])
               @ (if py_truthy description then [description] else [])
         in map_sum id PStr (py_join '', '' parts))
      else if py_truthy description
        then Inr (PStr (py_str name @ '', '' @ py_str description))
        else Inr name)"

text \<open>
  The rendering as the specification words it: per token type a fixed ordered table of
  attribute fragments; the name comes first, a later fragment is taken when the value of
  its attribute counts as true, and the fragments are joined with a comma and a space.
\<close>

definition fragment_table :: "string \<Rightarrow> (string \<times> (pyval \<Rightarrow> string)) list" where
  "fragment_table token_type =
     (if token_type = ''character'' then
        [(''age'', \<lambda>v. py_str v @ '' years old''),
         (''appearance'', py_str),
         (''clothing'', \<lambda>v. ''wearing '' @ py_str v),
         (''description'', py_str)]
      else if token_type = ''location'' then
        [(''setting'', py_str),
         (''time_of_day'', \<lambda>v. ''during '' @ py_str v),
         (''weather'', \<lambda>v. py_str v @ '' weather''),
         (''description'', py_str)]
      else if token_type = ''prop'' then
        [(''color'', py_str),
         (''material'', \<lambda>v. ''made of '' @ py_str v),
         (''description'', py_str)]
      else [(''description'', py_str)])"

definition render_fragments :: "string \<Rightarrow> pydict \<Rightarrow> string" where
  "render_fragments token_type attrs =
     join_strings '', ''
       (py_str (dict_get attrs ''name'' (PStr ''''))
        # map (\<lambda>(key, fmt). fmt (dict_get attrs key (PStr '''')))
            (filter (\<lambda>(key, fmt). py_truthy (dict_get attrs key (PStr '''')))
               (fragment_table token_type)))"

text \<open>An attribute is present and non-empty.\<close>

definition present_nonempty :: "pydict \<Rightarrow> string \<Rightarrow> bool" where
  "present_nonempty attrs key =
     (case attrs key of None \<Rightarrow> False | Some v \<Rightarrow> v \<noteq> PStr '''')"

text \<open>
  The token of the specification's example:
  \<^verbatim>\<open>{name: "Ana", age: 30, appearance: "tall", clothing: "red coat"}\<close>.
\<close>

definition ana :: token_data where
  "ana = \<lparr>td_fields = map_of [(''name'', PStr ''Ana''), (''age'', PInt 30),
                                 (''appearance'', PStr ''tall''),
                                 (''clothing'', PStr ''red coat'')],
          td_visuals = None\<rparr>"

text \<open>
  \<open>http_get\<close> is the network as \<^verbatim>\<open>requests.get\<close> sees it. Only
  \<^verbatim>\<open>requests.RequestException\<close> is caught; any other exception leaves the call.
\<close>

definition empty_context :: "pyval \<times> pyval \<times> pyval" where
  "empty_context = (PStr '''', PStr '''', PStr '''')"

definition load_context ::
  "(string \<Rightarrow> token_data http_outcome) \<Rightarrow> string \<Rightarrow> string \<Rightarrow> string \<Rightarrow> bool \<Rightarrow>
   error + (pyval \<times> pyval \<times> pyval)" where
  "load_context http_get token_type token_name vault_url include_visuals =
     (if token_name = [] then Inr empty_context
      else
        case http_get (vault_url @ ''/api/tokens/'' @ token_type @ ''/'' @ token_name) of
          RequestFailed \<Rightarrow> Inr empty_context
        | Response status_code body \<Rightarrow>
            if status_code \<noteq> 200 then Inr empty_context
            else
              (case body of
                 Inl e \<Rightarrow> if e = RequestException then Inr empty_context else Inl e
               | Inr token_data \<Rightarrow>
                   (case build_prompt_context token_type token_data of
                      Inl e \<Rightarrow> if e = RequestException then Inr empty_context else Inl e
                    | Inr prompt_context \<Rightarrow>
                        (let style_prompt =
                               dict_get (td_fields token_data) ''style_prompt'' (PStr '''');
                             reference_path =
                               (if include_visuals then
                                  (case td_visuals token_data of
                                     Some (v # _) \<Rightarrow> dict_get v ''path'' (PStr '''')
                                   | _ \<Rightarrow> PStr '''')
                                else PStr '''')
                         in Inr (prompt_context, style_prompt, reference_path)))))"

section \<open>VaultSaveNode (vault save)\<close>

subsection \<open>Paths and the local file system\<close>

text \<open>\<^verbatim>\<open>os.path.join\<close> and \<^verbatim>\<open>os.path.dirname\<close> on POSIX paths.\<close>

definition path_join2 :: "string \<Rightarrow> string \<Rightarrow> string" where
  "path_join2 a b =
     (if b \<noteq> [] \<and> hd b = CHR ''/'' then b
      else if a = [] \<or> last a = CHR ''/'' then a @ b
      else a @ ''/'' @ b)"

definition os_path_join :: "string \<Rightarrow> string list \<Rightarrow> string" where
  "os_path_join a ps = foldl path_join2 a ps"

definition rstrip_slash :: "string \<Rightarrow> string" where
  "rstrip_slash s = rev (dropWhile (\<lambda>c. c = CHR ''/'') (rev s))"

definition os_path_dirname :: "string \<Rightarrow> string" where
  "os_path_dirname p =
     (let head = rev (dropWhile (\<lambda>c. c \<noteq> CHR ''/'') (rev p))
      in if head \<noteq> [] \<and> \<not> list_all (\<lambda>c. c = CHR ''/'') head then rstrip_slash head
         else head)"

text \<open>
  The directories \<^verbatim>\<open>os.makedirs\<close> creates for a path: the path itself and each of its
  ancestors. \<open>pre\<close> is the part of the path already read.
\<close>

fun dir_chain :: "string \<Rightarrow> string \<Rightarrow> string list" where
  "dir_chain pre [] = (if pre = [] then [] else [pre])"
| "dir_chain pre (c # cs) =
     (if c = CHR ''/'' \<and> pre \<noteq> [] \<and> last pre \<noteq> CHR ''/''
      then pre # dir_chain (pre @ [c]) cs
      else dir_chain (pre @ [c]) cs)"

text \<open>
  The file system: the contents of the regular files and the set of directories. A write
  fails with OSError where a file is in the way of a directory or a directory in the way of
  the file; other causes of failure (permissions, a full disk) are not modelled.
\<close>

record filesystem =
  fs_files :: "string \<rightharpoonup> string"
  fs_dirs :: "string set"

definition os_makedirs :: "filesystem \<Rightarrow> string \<Rightarrow> error + filesystem" where
  "os_makedirs fs d =
     (if d = [] \<or> list_ex (\<lambda>p. fs_files fs p \<noteq> None) (dir_chain [] d) then Inl OSError
      else Inr (fs\<lparr>fs_dirs := fs_dirs fs \<union> set (dir_chain [] d)\<rparr>))"

definition write_file :: "filesystem \<Rightarrow> string \<Rightarrow> string \<Rightarrow> error + filesystem" where
  "write_file fs path bytes =
     (if path \<in> fs_dirs fs \<or> os_path_dirname path \<notin> fs_dirs fs then Inl OSError
      else Inr (fs\<lparr>fs_files := (fs_files fs)(path \<mapsto> bytes)\<rparr>))"

subsection \<open>Saving an image\<close>

fun split_on :: "char \<Rightarrow> string \<Rightarrow> string list" where
  "split_on sep [] = [[]]"
| "split_on sep (c # cs) =
     (if c = sep then [] # split_on sep cs
      else (c # hd (split_on sep cs)) # tl (split_on sep cs))"

record upload_payload =
  ul_filename :: string
  ul_data :: string
  ul_token_type :: string
  ul_token_name :: string
  ul_description :: string
  ul_tags :: "string list"

text \<open>
  What the node takes from its surroundings: \<open>uuid4\<close> is \<^verbatim>\<open>str(uuid.uuid4())\<close>,
  \<open>home\<close> is \<^verbatim>\<open>os.path.expanduser("~")\<close>, \<open>to_png\<close> turns the image tensor into the bytes
  of its PNG file (the conversion through numpy and PIL), \<open>b64encode\<close> is the base64
  encoding and \<open>upload\<close> is the network as \<^verbatim>\<open>requests.post\<close> sees it.
\<close>

record 'img save_env =
  uuid4 :: string
  home :: string
  to_png :: "'img \<Rightarrow> string"
  b64encode :: "string \<Rightarrow> string"
  upload :: "string \<Rightarrow> upload_payload \<Rightarrow> pydict http_outcome"

text \<open>
  The fallback of the handler of \<^verbatim>\<open>requests.RequestException\<close>: the id becomes local and
  the image is written under the home directory.
\<close>

definition save_locally ::
  "'img save_env \<Rightarrow> filesystem \<Rightarrow> 'img \<Rightarrow> string \<Rightarrow> string \<Rightarrow>
   (error + (pyval \<times> 'img)) \<times> filesystem" where
  "save_locally env fs image_t asset_id filename =
     (let saved_id = PStr (''local:'' @ asset_id);
          local_path = os_path_join (home env) [''CinemaOS'', ''outputs'', filename]
      in case os_makedirs fs (os_path_dirname local_path) of
           Inl e \<Rightarrow> (Inl e, fs)
         | Inr fs1 \<Rightarrow>
             (case write_file fs1 local_path (to_png env image_t) of
                Inl e \<Rightarrow> (Inl e, fs1)
              | Inr fs2 \<Rightarrow> (Inr (saved_id, image_t), fs2)))"

definition save_to_vault ::
  "'img save_env \<Rightarrow> filesystem \<Rightarrow> 'img \<Rightarrow> string \<Rightarrow> string \<Rightarrow> string \<Rightarrow> string \<Rightarrow> string \<Rightarrow>
   (error + (pyval \<times> 'img)) \<times> filesystem" where
  "save_to_vault env fs image_t token_type token_name vault_url description tags =
     (let asset_id = take 8 (uuid4 env);
          filename = (if token_name \<noteq> []
                      then token_type @ ''_'' @ token_name @ ''_'' @ asset_id @ ''.png''
                      else ''output_'' @ asset_id @ ''.png'');
          img_b64 = b64encode env (to_png env image_t);
          payload = \<lparr>ul_filename = filename, ul_data = img_b64, ul_token_type = token_type,
                     ul_token_name = token_name, ul_description = description,
                     ul_tags = filter (\<lambda>t. t \<noteq> []) (map strip (split_on (CHR '','') tags))\<rparr>
      in case upload env (vault_url @ ''/api/assets/upload'') payload of
           Response status_code body \<Rightarrow>
             if status_code = 200 then
               (case body of
                  Inr result \<Rightarrow> (Inr (dict_get result ''id'' (PStr asset_id), image_t), fs)
                | Inl e \<Rightarrow>
                    if e = RequestException then save_locally env fs image_t asset_id filename
                    else (Inl e, fs))
             else (Inr (PStr (''local:'' @ asset_id), image_t), fs)
         | RequestFailed \<Rightarrow> save_locally env fs image_t asset_id filename)"

section \<open>FalProviderNode (Fal.ai provider)\<close>

definition fal_model_endpoints :: "string \<rightharpoonup> string" where
  "fal_model_endpoints = map_of
     [(''flux-2-pro'', ''fal-ai/flux-2/pro''),
      (''flux-1.1-pro'', ''fal-ai/flux-pro/v1.1''),
      (''flux-schnell'', ''fal-ai/flux/schnell''),
      (''kling-v2.5-turbo'', ''fal-ai/kling-video/v2.5/turbo/image-to-video''),
      (''seedream-4.5'', ''fal-ai/seedream/v4.5'')]"

definition fal_base_costs :: "string \<rightharpoonup> pyfloat" where
  "fal_base_costs = map_of
     [(''flux-2-pro'', Finite 0.05),
      (''flux-1.1-pro'', Finite 0.04),
      (''flux-schnell'', Finite 0.003),
      (''kling-v2.5-turbo'', Finite 0.08),
      (''seedream-4.5'', Finite 0.02)]"

text \<open>
  \<^verbatim>\<open>_estimate_credits\<close>. The quotient \<^verbatim>\<open>pixels / (1024 * 1024)\<close> is the true division of
  two integers by a non-zero constant, a finite float.
\<close>

definition fal_estimate_credits :: "string \<Rightarrow> int \<Rightarrow> int \<Rightarrow> pyfloat" where
  "fal_estimate_credits model width height =
     (let base = (case fal_base_costs model of Some b \<Rightarrow> b | None \<Rightarrow> Finite 0.01);
          pixels = width * height;
          scale = Finite (real_of_int pixels / real_of_int (1024 * 1024))
      in fmul base scale)"

record fal_payload =
  fp_prompt :: string
  fp_image_size :: "int \<times> int"
  fp_num_inference_steps :: int
  fp_guidance_scale :: pyfloat
  fp_negative_prompt :: "string option"
  fp_seed :: "int option"
  fp_image_url :: "string option"

text \<open>
  The decoded answer of Fal.ai: the list under the key \<^verbatim>\<open>images\<close>, \<open>None\<close> when the key is
  absent.
\<close>

record fal_result =
  fr_images :: "pydict list option"

text \<open>
  What the node takes from its surroundings: the API key read from the environment at
  construction, \<open>fal_post\<close> for \<^verbatim>\<open>requests.post\<close> (URL, JSON payload, headers),
  \<open>fal_fetch_image\<close> for the download of the image URL and its decoding into a tensor, and
  \<open>fal_encode_image\<close> for the base64 PNG encoding of an input tensor.
\<close>

record 'img fal_env =
  fal_api_key :: string
  fal_post :: "string \<Rightarrow> fal_payload \<Rightarrow> (string \<times> string) list \<Rightarrow> fal_result http_outcome"
  fal_fetch_image :: "pyval \<Rightarrow> error + 'img"
  fal_encode_image :: "'img \<Rightarrow> string"

definition fal_base_url :: string where
  "fal_base_url = ''https://fal.run''"

definition fal_generate ::
  "'img fal_env \<Rightarrow> string \<Rightarrow> string \<Rightarrow> int \<Rightarrow> int \<Rightarrow> string \<Rightarrow> int \<Rightarrow> int \<Rightarrow> pyfloat \<Rightarrow>
   'img option \<Rightarrow> error + ('img \<times> string)" where
  "fal_generate env prompt model width height negative_prompt seed num_steps guidance_scale
     input_image =
     (if fal_api_key env = [] then Inl (ValueError ''FAL_API_KEY environment variable not set'')
      else
        let endpoint = (case fal_model_endpoints model of
                          Some e \<Rightarrow> e | None \<Rightarrow> ''fal-ai/flux/schnell'');
            url = fal_base_url @ ''/'' @ endpoint;
            payload = \<lparr>fp_prompt = prompt, fp_image_size = (width, height),
                       fp_num_inference_steps = num_steps,
                       fp_guidance_scale = guidance_scale,
                       fp_negative_prompt =
                         (if negative_prompt \<noteq> [] then Some negative_prompt else None),
                       fp_seed = (if seed \<ge> 0 then Some seed else None),
                       fp_image_url =
                         (case input_image of
                            Some img \<Rightarrow> Some (''data:image/png;base64,'' @ fal_encode_image env img)
                          | None \<Rightarrow> None)\<rparr>;
            headers = [(''Authorization'', ''Key '' @ fal_api_key env),
                       (''Content-Type'', ''application/json'')]
        in case fal_post env url payload headers of
             RequestFailed \<Rightarrow> Inl RequestException
           | Response status_code body \<Rightarrow>
               if 400 \<le> status_code \<and> status_code < 600 then Inl RequestException
               else
                 (case body of
                    Inl e \<Rightarrow> Inl e
                  | Inr result \<Rightarrow>
                      (case fr_images result of
                         Some (first # _) \<Rightarrow>
                           (let img_url = dict_get first ''url'' (PStr '''')
                            in if py_truthy img_url then
                                 (case fal_fetch_image env img_url of
                                    Inl e \<Rightarrow> Inl e
                                  | Inr img_tensor \<Rightarrow>
                                      Inr (img_tensor,
                                           format_4f (fal_estimate_credits model width height)))
                               else Inl (ValueError ''No image returned from Fal.ai''))
                       | _ \<Rightarrow> Inl (ValueError ''No image returned from Fal.ai''))))"

section \<open>VertexProviderNode (Vertex AI provider)\<close>

definition startswith :: "string \<Rightarrow> string \<Rightarrow> bool" where
  "startswith s p = (take (length p) s = p)"

definition vertex_costs :: "string \<rightharpoonup> pyfloat" where
  "vertex_costs = map_of
     [(''imagen-4'', Finite 0.04),
      (''imagen-4-fast'', Finite 0.02),
      (''veo-3.1'', Finite 0.50)]"

definition vertex_estimate_credits :: "string \<Rightarrow> int \<Rightarrow> int \<Rightarrow> pyfloat" where
  "vertex_estimate_credits model width height =
     (case vertex_costs model of Some c \<Rightarrow> c | None \<Rightarrow> Finite 0.02)"

text \<open>\<^verbatim>\<open>_get_aspect_ratio\<close>; the true division raises on a zero height.\<close>

definition get_aspect_ratio :: "int \<Rightarrow> int \<Rightarrow> error + string" where
  "get_aspect_ratio width height =
     (if height = 0 then Inl ZeroDivisionError
      else
        let ratio = real_of_int width / real_of_int height
        in if ratio > 1.6 then Inr ''16:9''
           else if ratio < 0.6 then Inr ''9:16''
           else if ratio > 1.2 then Inr ''4:3''
           else if ratio < 0.8 then Inr ''3:4''
           else Inr ''1:1'')"

record imagen_parameters =
  ip_number_of_images :: int
  ip_aspect_ratio :: string
  ip_negative_prompt :: "string option"
  ip_seed :: "int option"

text \<open>
  What the node takes from its surroundings: whether the Google packages were importable,
  the project and location read from the environment at construction, and the Imagen SDK:
  \<open>vx_from_pretrained\<close> imports the vision models and loads the model by name,
  \<open>vx_edit_image\<close> and \<open>vx_generate_images\<close> call the loaded model and answer the images
  of the response as tensors.
\<close>

record ('img, 'mdl) vertex_env =
  vx_has_google_cloud :: bool
  vx_project_id :: string
  vx_location :: string
  vx_from_pretrained :: "string \<Rightarrow> error + 'mdl"
  vx_edit_image :: "'mdl \<Rightarrow> string \<Rightarrow> 'img \<Rightarrow> imagen_parameters \<Rightarrow> error + 'img list"
  vx_generate_images :: "'mdl \<Rightarrow> string \<Rightarrow> imagen_parameters \<Rightarrow> error + 'img list"

definition generate_imagen ::
  "('img, 'mdl) vertex_env \<Rightarrow> string \<Rightarrow> string \<Rightarrow> int \<Rightarrow> int \<Rightarrow> string \<Rightarrow> int \<Rightarrow> int \<Rightarrow>
   'img option \<Rightarrow> error + ('img \<times> string)" where
  "generate_imagen env prompt model width height negative_prompt seed num_images input_image =
     (case vx_from_pretrained env model of
        Inl e \<Rightarrow> Inl e
      | Inr imagen \<Rightarrow>
          (case get_aspect_ratio width height of
             Inl e \<Rightarrow> Inl e
           | Inr aspect \<Rightarrow>
               (let parameters =
                      \<lparr>ip_number_of_images = num_images, ip_aspect_ratio = aspect,
                       ip_negative_prompt =
                         (if negative_prompt \<noteq> [] then Some negative_prompt else None),
                       ip_seed = (if seed \<ge> 0 then Some seed else None)\<rparr>;
                    response =
                      (case input_image of
                         Some base_image \<Rightarrow> vx_edit_image env imagen prompt base_image parameters
                       | None \<Rightarrow> vx_generate_images env imagen prompt parameters)
                in case response of
                     Inl e \<Rightarrow> Inl e
                   | Inr [] \<Rightarrow> Inl (ValueError ''No image returned from Vertex AI'')
                   | Inr (img # _) \<Rightarrow>
                       Inr (img, format_4f (vertex_estimate_credits model width height)))))"

definition generate_veo ::
  "('img, 'mdl) vertex_env \<Rightarrow> string \<Rightarrow> string \<Rightarrow> int \<Rightarrow> int \<Rightarrow> int \<Rightarrow> 'img option \<Rightarrow>
   error + ('img \<times> string)" where
  "generate_veo env prompt model width height seed input_image =
     Inl (NotImplementedError ''Veo video generation requires video output handling'')"

text \<open>
  \<^verbatim>\<open>generate\<close>. The call of \<^verbatim>\<open>aiplatform.init\<close> returns nothing the node reads and is
  left out.
\<close>

definition vertex_generate ::
  "('img, 'mdl) vertex_env \<Rightarrow> string \<Rightarrow> string \<Rightarrow> int \<Rightarrow> int \<Rightarrow> string \<Rightarrow> int \<Rightarrow> int \<Rightarrow> 'img option \<Rightarrow>
   error + ('img \<times> string)" where
  "vertex_generate env prompt model width height negative_prompt seed num_images input_image =
     (if \<not> vx_has_google_cloud env
        then Inl (ImportError ''google-cloud-aiplatform package not installed'')
      else if vx_project_id env = []
        then Inl (ValueError ''GOOGLE_CLOUD_PROJECT environment variable not set'')
      else if startswith model ''imagen''
        then generate_imagen env prompt model width height negative_prompt seed num_images
               input_image
      else if startswith model ''veo''
        then generate_veo env prompt model width height seed input_image
      else Inl (ValueError (''Unknown model: '' @ model)))"

section \<open>Networks used in the examples\<close>

text \<open>A network on which every request fails, and one that answers every request alike.\<close>

definition unreachable :: "string \<Rightarrow> 'p \<Rightarrow> 'j http_outcome" where
  "unreachable url payload = RequestFailed"

definition responding :: "int \<Rightarrow> error + 'j \<Rightarrow> string \<Rightarrow> 'p \<Rightarrow> 'j http_outcome" where
  "responding status_code body url payload = Response status_code body"

definition get_unreachable :: "string \<Rightarrow> 'j http_outcome" where
  "get_unreachable url = RequestFailed"

definition get_responding :: "int \<Rightarrow> error + 'j \<Rightarrow> string \<Rightarrow> 'j http_outcome" where
  "get_responding status_code body url = Response status_code body"

section \<open>Surroundings used in the examples\<close>

text \<open>
  Images are strings here and both encoders are the identity. The home directory is
  \<^verbatim>\<open>/home/ana\<close> and the file system starts empty.
\<close>

definition demo_save_env ::
  "(string \<Rightarrow> upload_payload \<Rightarrow> pydict http_outcome) \<Rightarrow> string save_env" where
  "demo_save_env net =
     \<lparr>uuid4 = ''1b4e28ba-2fa1-41d2-883f-0016d3cca427'', home = ''/home/ana'',
      to_png = id, b64encode = id, upload = net\<rparr>"

definition empty_fs :: filesystem where
  "empty_fs = \<lparr>fs_files = Map.empty, fs_dirs = {}\<rparr>"

text \<open>A Fal.ai that answers every request with one image URL, and a configured Vertex.\<close>

definition demo_fal_env :: "string fal_env" where
  "demo_fal_env =
     \<lparr>fal_api_key = ''key-123'',
      fal_post = (\<lambda>url payload headers.
         if url = ''https://fal.run/fal-ai/flux/schnell''
         then Response 200 (Inr \<lparr>fr_images = Some [map_of [(''url'', PStr ''https://cdn/x.png'')]]\<rparr>)
         else Response 404 (Inl (ValueError ''no JSON''))),
      fal_fetch_image = (\<lambda>url. Inr ''pixels''),
      fal_encode_image = id\<rparr>"

definition demo_vertex_env :: "(string, string) vertex_env" where
  "demo_vertex_env =
     \<lparr>vx_has_google_cloud = True, vx_project_id = ''demo-project'',
      vx_location = ''us-central1'',
      vx_from_pretrained = (\<lambda>model. Inr model),
      vx_edit_image = (\<lambda>imagen prompt base_image parameters. Inr [''pixels'']),
      vx_generate_images = (\<lambda>imagen prompt parameters. Inr [''pixels''])\<rparr>"

section \<open>Evaluation rules\<close>


lemma replicate_numeral_unfold:
  "replicate (numeral k) x = x # replicate (pred_numeral k) x"
  by (simp add: numeral_eq_Suc)

lemmas format_4f_eval = round_half_even_def pad4_def digit_char_def replicate_numeral_unfold

section \<open>Properties of the credit tracker\<close>















section \<open>Properties of the credit estimates\<close>

lemma fal_base_nonneg:
  "fnonneg (case fal_base_costs model of Some b \<Rightarrow> b | None \<Rightarrow> Finite 0.01) \<and>
   (case fal_base_costs model of Some b \<Rightarrow> b | None \<Rightarrow> Finite 0.01) \<noteq> PosInf"
  by (simp add: fal_base_costs_def fnonneg_def)

lemma fmul_finite_mono:
  "fnonneg base \<Longrightarrow> base \<noteq> PosInf \<Longrightarrow> x \<le> y \<Longrightarrow>
   fle (fmul base (Finite x)) (fmul base (Finite y))"
  by (cases base) (simp_all add: fnonneg_def fmul_def mult_left_mono)

lemma fle_same: "x \<noteq> NaN \<Longrightarrow> fle x x"
  by (cases x) simp_all

lemma vertex_estimate_not_nan: "vertex_estimate_credits model width height \<noteq> NaN"
  by (simp add: vertex_estimate_credits_def vertex_costs_def)

lemma vertex_estimate_resolution:
  "vertex_estimate_credits model width1 height1 = vertex_estimate_credits model width2 height2"
  by (simp add: vertex_estimate_credits_def)

text \<open>
  C6 as stated fails for the Vertex adapter: its estimate for the mapped model imagen-4 at
  2048 x 2048 is the base cost 0.04 itself, not 0.04 multiplied by
  (2048 * 2048) / (1024 * 1024) = 4.
\<close>

theorem vertex_estimate_not_scaled_counterexample:
  "vertex_costs ''imagen-4'' = Some (Finite 0.04) \<and>
   vertex_estimate_credits ''imagen-4'' 2048 2048
     \<noteq> fmul (Finite 0.04) (Finite (real_of_int (2048 * 2048) / real_of_int (1024 * 1024)))"
  by (simp add: vertex_estimate_credits_def vertex_costs_def fmul_def)

text \<open>
  C6 (amended). For every model mapped in the Fal cost table and all widths and heights,
  the Fal estimate is the static base cost of the model multiplied by
  (width * height) / (1024 * 1024). For every model mapped in the Vertex cost table, the
  Vertex estimate is the static cost of the model, whatever the width and height.
\<close>

theorem estimate_credits_scaling:
  "(fal_base_costs model = Some base \<longrightarrow>
      fal_estimate_credits model width height
        = fmul base (Finite (real_of_int (width * height) / real_of_int (1024 * 1024)))) \<and>
   (vertex_costs model = Some cost \<longrightarrow> vertex_estimate_credits model width height = cost)"
  by (simp add: fal_estimate_credits_def vertex_estimate_credits_def Let_def)

theorem estimate_credits_scaling_witness:
  "fal_base_costs ''flux-2-pro'' = Some (Finite 0.05) \<and>
   fal_estimate_credits ''flux-2-pro'' 2048 1024 = Finite 0.1 \<and>
   vertex_costs ''imagen-4'' = Some (Finite 0.04) \<and>
   vertex_estimate_credits ''imagen-4'' 2048 1024 = Finite 0.04"
proof -
  have f: "fal_base_costs ''flux-2-pro'' = Some (Finite 0.05)"
    by (simp add: fal_base_costs_def)
  have v: "vertex_costs ''imagen-4'' = Some (Finite 0.04)"
    by (simp add: vertex_costs_def)
  show ?thesis
    using f v estimate_credits_scaling [of "''flux-2-pro''" "Finite 0.05" 2048 1024
        "Finite 0.04"]
      estimate_credits_scaling [of "''imagen-4''" "Finite 0.05" 2048 1024 "Finite 0.04"]
    by (simp add: fmul_def)
qed

text \<open>
  C7. For each adapter and every fixed model, the estimate does not decrease when the pixel
  count width * height does not decrease. For a model outside the cost table neither
  function raises: the Fal estimate is computed from the fixed default base cost 0.01 (it is
  0.01 multiplied by (width * height) / (1024 * 1024)), and the Vertex estimate is the
  fixed default cost 0.02.
\<close>

theorem estimate_credits_monotone:
  "(width1 * height1 \<le> width2 * height2 \<longrightarrow>
      fle (fal_estimate_credits model width1 height1) (fal_estimate_credits model width2 height2) \<and>
      fle (vertex_estimate_credits model width1 height1)
          (vertex_estimate_credits model width2 height2)) \<and>
   (fal_base_costs model = None \<longrightarrow>
      fal_estimate_credits model width height
        = fmul (Finite 0.01) (Finite (real_of_int (width * height) / real_of_int (1024 * 1024)))) \<and>
   (vertex_costs model = None \<longrightarrow> vertex_estimate_credits model width height = Finite 0.02)"
proof -
  have fal: "fle (fal_estimate_credits model width1 height1)
                 (fal_estimate_credits model width2 height2)"
    if le: "width1 * height1 \<le> width2 * height2"
  proof -
    from le have "real_of_int (width1 * height1) / real_of_int (1024 * 1024)
        \<le> real_of_int (width2 * height2) / real_of_int (1024 * 1024)"
      by (simp add: divide_right_mono del: of_int_mult)
    then show ?thesis
      unfolding fal_estimate_credits_def Let_def
      using fal_base_nonneg [of model] by (intro fmul_finite_mono) simp_all
  qed
  have vertex: "fle (vertex_estimate_credits model width1 height1)
                    (vertex_estimate_credits model width2 height2)"
    using fle_same [OF vertex_estimate_not_nan [of model width2 height2]]
    by (simp add: vertex_estimate_resolution [of model width1 height1 width2 height2])
  have dflt: "fal_base_costs model = None \<longrightarrow>
      fal_estimate_credits model width height
        = fmul (Finite 0.01) (Finite (real_of_int (width * height) / real_of_int (1024 * 1024)))"
    by (simp add: fal_estimate_credits_def Let_def)
  have vdflt: "vertex_costs model = None \<longrightarrow>
      vertex_estimate_credits model width height = Finite 0.02"
    by (simp add: vertex_estimate_credits_def)
  from fal vertex dflt vdflt show ?thesis by blast
qed


theorem estimate_credits_monotone_witness:
  "(512 * 512 \<le> (1024 * 768 :: int)) \<and>
   fle (fal_estimate_credits ''flux-schnell'' 512 512)
       (fal_estimate_credits ''flux-schnell'' 1024 768) \<and>
   fle (vertex_estimate_credits ''flux-schnell'' 512 512)
       (vertex_estimate_credits ''flux-schnell'' 1024 768) \<and>
   fal_base_costs ''my-model'' = None \<and>
   fal_estimate_credits ''my-model'' 1024 1024 = Finite 0.01 \<and>
   fal_estimate_credits ''my-model'' 512 512 = Finite 0.0025 \<and>
   vertex_costs ''my-model'' = None \<and>
   vertex_estimate_credits ''my-model'' 512 512 = Finite 0.02"
proof -
  have f: "fal_base_costs ''my-model'' = None"
    by (simp add: fal_base_costs_def)
  have v: "vertex_costs ''my-model'' = None"
    by (simp add: vertex_costs_def)
  show ?thesis
    using f v estimate_credits_monotone [of 512 512 1024 768 "''flux-schnell''" 0 0]
      estimate_credits_monotone [of 0 0 0 0 "''my-model''" 1024 1024]
      estimate_credits_monotone [of 0 0 0 0 "''my-model''" 512 512]
    by (simp add: fmul_def)
qed

section \<open>Properties of the context node\<close>

lemma ana_render: "build_prompt_context ''character'' ana
     = Inr (PStr ''Ana, 30 years old, tall, wearing red coat'')"
  by (simp add: build_prompt_context_def ana_def dict_get_def py_join_def str_int_def
      digit_char_def Let_def)

lemma truthy_present:
  "py_truthy (dict_get attrs key (PStr '''')) \<Longrightarrow> present_nonempty attrs key"
  by (auto simp: dict_get_def present_nonempty_def split: option.splits)

lemma text_value:
  assumes "\<forall>key v. attrs key = Some v \<longrightarrow> key \<noteq> ''age'' \<longrightarrow> is_str v" and "key \<noteq> ''age''"
  shows "\<exists>s. dict_get attrs key (PStr '''') = PStr s"
proof (cases "attrs key")
  case None
  then show ?thesis by (simp add: dict_get_def)
next
  case (Some v)
  with assms have "is_str v" by blast
  then obtain s where "v = PStr s" by (cases v) simp_all
  with Some show ?thesis by (simp add: dict_get_def)
qed

lemma render_general:
  assumes textual: "\<forall>key v. td_fields token_data key = Some v \<longrightarrow> key \<noteq> ''age'' \<longrightarrow> is_str v"
  shows "build_prompt_context token_type token_data
     = Inr (PStr (render_fragments token_type (td_fields token_data)))"
proof -
  obtain name where name: "dict_get (td_fields token_data) ''name'' (PStr '''') = PStr name"
    using text_value [OF textual, of "''name''"] by auto
  obtain description where
    description: "dict_get (td_fields token_data) ''description'' (PStr '''') = PStr description"
    using text_value [OF textual, of "''description''"] by auto
  obtain appearance where
    appearance: "dict_get (td_fields token_data) ''appearance'' (PStr '''') = PStr appearance"
    using text_value [OF textual, of "''appearance''"] by auto
  obtain setting where
    setting: "dict_get (td_fields token_data) ''setting'' (PStr '''') = PStr setting"
    using text_value [OF textual, of "''setting''"] by auto
  obtain color where
    color: "dict_get (td_fields token_data) ''color'' (PStr '''') = PStr color"
    using text_value [OF textual, of "''color''"] by auto
  consider "token_type = ''character''" | "token_type = ''location''" | "token_type = ''prop''"
    | "token_type \<noteq> ''character''" "token_type \<noteq> ''location''" "token_type \<noteq> ''prop''"
    by blast
  then show ?thesis
  proof cases
    case 1
    then show ?thesis
      by (simp add: build_prompt_context_def render_fragments_def fragment_table_def Let_def
          py_join_def name description appearance)
  next
    case 2
    then show ?thesis
      by (simp add: build_prompt_context_def render_fragments_def fragment_table_def Let_def
          py_join_def name description setting)
  next
    case 3
    then show ?thesis
      by (simp add: build_prompt_context_def render_fragments_def fragment_table_def Let_def
          py_join_def name description color)
  next
    case 4
    then show ?thesis
      by (simp add: build_prompt_context_def render_fragments_def fragment_table_def Let_def
          name description)
  qed
qed

lemma ana_textual:
  "\<forall>key v. td_fields ana key = Some v \<longrightarrow> key \<noteq> ''age'' \<longrightarrow> is_str v"
  by (simp add: ana_def)

text \<open>
  C8. The character token \<open>ana\<close> renders as
  \<^verbatim>\<open>Ana, 30 years old, tall, wearing red coat\<close>. In general, for every token type and every
  token whose attributes are strings (the age may be any scalar), the prompt context is
  \<open>render_fragments\<close>: the name first, then the fragments of the type's table in order,
  joined with a comma and a space; and a fragment is taken only if its attribute is present
  and non-empty.
\<close>

theorem build_prompt_context_render:
  "build_prompt_context ''character'' ana
     = Inr (PStr ''Ana, 30 years old, tall, wearing red coat'') \<and>
   ((\<forall>key v. td_fields token_data key = Some v \<longrightarrow> key \<noteq> ''age'' \<longrightarrow> is_str v) \<longrightarrow>
      build_prompt_context token_type token_data
        = Inr (PStr (render_fragments token_type (td_fields token_data)))) \<and>
   (py_truthy (dict_get attrs key (PStr '''')) \<longrightarrow> present_nonempty attrs key)"
  using ana_render render_general [of token_data token_type] truthy_present [of attrs key]
  by blast

theorem build_prompt_context_render_witness:
  "build_prompt_context ''location''
      \<lparr>td_fields = map_of [(''name'', PStr ''Harbour''), (''setting'', PStr ''old docks''),
                           (''time_of_day'', PStr ''dusk''), (''weather'', PStr '''')],
       td_visuals = None\<rparr>
     = Inr (PStr ''Harbour, old docks, during dusk'') \<and>
   py_truthy (dict_get (td_fields ana) ''age'' (PStr '''')) \<and>
   present_nonempty (td_fields ana) ''age''"
proof -
  let ?td = "\<lparr>td_fields = map_of [(''name'', PStr ''Harbour''), (''setting'', PStr ''old docks''),
                           (''time_of_day'', PStr ''dusk''), (''weather'', PStr '''')],
       td_visuals = None\<rparr>"
  have h: "\<forall>key v. td_fields ?td key = Some v \<longrightarrow> key \<noteq> ''age'' \<longrightarrow> is_str v"
    by simp
  have r: "render_fragments ''location'' (td_fields ?td) = ''Harbour, old docks, during dusk''"
    by (simp add: render_fragments_def fragment_table_def dict_get_def)
  have t: "py_truthy (dict_get (td_fields ana) ''age'' (PStr ''''))"
    by (simp add: ana_def dict_get_def)
  show ?thesis
    using h r t build_prompt_context_render [of ?td "''location''" "td_fields ana" "''age''"]
    by simp
qed

text \<open>
  C3. For every non-empty token name, \<open>load_context\<close> returns the empty result
  \<^verbatim>\<open>("", "", "")\<close> when the Vault answers with a status other than 200 and returns the same
  result when the request raises: the caller sees no difference, and neither case raises.
\<close>

theorem load_context_failures_alike:
  assumes "token_name \<noteq> []"
    and "status_code \<noteq> 200"
    and "get_missing (vault_url @ ''/api/tokens/'' @ token_type @ ''/'' @ token_name)
           = Response status_code body"
    and "get_offline (vault_url @ ''/api/tokens/'' @ token_type @ ''/'' @ token_name)
           = RequestFailed"
  shows "load_context get_missing token_type token_name vault_url include_visuals
           = Inr (PStr '''', PStr '''', PStr '''') \<and>
         load_context get_offline token_type token_name vault_url include_visuals
           = Inr (PStr '''', PStr '''', PStr '''')"
  using assms by (simp add: load_context_def empty_context_def)

theorem load_context_failures_alike_witness:
  "load_context (get_responding 404 (Inl (ValueError ''no JSON''))) ''character'' ''Ana''
       ''http://localhost:8080'' True
     = Inr (PStr '''', PStr '''', PStr '''') \<and>
   load_context get_unreachable ''character'' ''Ana'' ''http://localhost:8080'' True
     = Inr (PStr '''', PStr '''', PStr '''')"
  using load_context_failures_alike [of "''Ana''" 404
      "get_responding 404 (Inl (ValueError ''no JSON''))" "''http://localhost:8080''"
      "''character''" "Inl (ValueError ''no JSON'')" get_unreachable True]
  by (simp add: get_responding_def get_unreachable_def)

section \<open>Properties of the save node\<close>

lemma demo_path: "os_path_join ''/home/ana'' [''CinemaOS'', ''outputs'', ''shot_s1_1b4e28ba.png'']
   = ''/home/ana/CinemaOS/outputs/shot_s1_1b4e28ba.png''"
  by (simp add: os_path_join_def path_join2_def)

lemma demo_dirname: "os_path_dirname ''/home/ana/CinemaOS/outputs/shot_s1_1b4e28ba.png''
   = ''/home/ana/CinemaOS/outputs''"
  by (simp add: os_path_dirname_def rstrip_slash_def)

lemma demo_chain: "dir_chain [] ''/home/ana/CinemaOS/outputs''
   = [''/home'', ''/home/ana'', ''/home/ana/CinemaOS'', ''/home/ana/CinemaOS/outputs'']"
  by simp

lemma demo_makedirs: "os_makedirs empty_fs ''/home/ana/CinemaOS/outputs''
   = Inr \<lparr>fs_files = Map.empty, fs_dirs = {''/home'', ''/home/ana'', ''/home/ana/CinemaOS'', ''/home/ana/CinemaOS/outputs''}\<rparr>"
  unfolding os_makedirs_def demo_chain by (simp add: empty_fs_def) 



lemma save_locally_demo:
  "save_locally (demo_save_env net) empty_fs ''pixels'' ''1b4e28ba'' ''shot_s1_1b4e28ba.png''
   = (Inr (PStr ''local:1b4e28ba'', ''pixels''), 
       \<lparr>fs_files = [''/home/ana/CinemaOS/outputs/shot_s1_1b4e28ba.png'' \<mapsto> ''pixels''], fs_dirs = {''/home'', ''/home/ana'', ''/home/ana/CinemaOS'', ''/home/ana/CinemaOS/outputs''}\<rparr>)"
  unfolding save_locally_def Let_def
  apply (simp add: demo_save_env_def demo_path demo_dirname demo_makedirs)
  apply (simp add: write_file_def demo_dirname)
  done


text \<open>
  C2 at a rejected upload. The Vault answers the upload with status 500: the node returns
  the id \<^verbatim>\<open>local:1b4e28ba\<close> and leaves the file system as it was, so that no file exists
  at \<^verbatim>\<open>/home/ana/CinemaOS/outputs/shot_s1_1b4e28ba.png\<close>. With the same arguments and a
  request that raises, the node returns the same id and the file holds the image.
\<close>

theorem save_to_vault_rejected_not_written:
  "save_to_vault (demo_save_env (responding 500 (Inl (ValueError ''no JSON'')))) empty_fs
       ''pixels'' ''shot'' ''s1'' ''http://localhost:8080'' '''' ''''
     = (Inr (PStr ''local:1b4e28ba'', ''pixels''), empty_fs) \<and>
   fs_files empty_fs ''/home/ana/CinemaOS/outputs/shot_s1_1b4e28ba.png'' = None \<and>
   fst (save_to_vault (demo_save_env unreachable) empty_fs
       ''pixels'' ''shot'' ''s1'' ''http://localhost:8080'' '''' '''')
     = Inr (PStr ''local:1b4e28ba'', ''pixels'') \<and>
   fs_files (snd (save_to_vault (demo_save_env unreachable) empty_fs
       ''pixels'' ''shot'' ''s1'' ''http://localhost:8080'' '''' ''''))
     ''/home/ana/CinemaOS/outputs/shot_s1_1b4e28ba.png'' = Some ''pixels''"
proof -
  have rejected: "save_to_vault (demo_save_env (responding 500 (Inl (ValueError ''no JSON''))))
       empty_fs ''pixels'' ''shot'' ''s1'' ''http://localhost:8080'' '''' ''''
     = (Inr (PStr ''local:1b4e28ba'', ''pixels''), empty_fs)"
    by (simp add: save_to_vault_def demo_save_env_def responding_def Let_def)
  have offline: "save_to_vault (demo_save_env unreachable) empty_fs
       ''pixels'' ''shot'' ''s1'' ''http://localhost:8080'' '''' ''''
     = save_locally (demo_save_env unreachable) empty_fs ''pixels'' ''1b4e28ba''
         ''shot_s1_1b4e28ba.png''"
    by (simp add: save_to_vault_def demo_save_env_def unreachable_def Let_def)
  show ?thesis
    unfolding rejected offline save_locally_demo by (simp add: empty_fs_def)
qed



section \<open>Properties of the dispatch on the model name\<close>

lemma fal_generate_default_url:
  assumes "fal_model_endpoints model = None"
  shows "fal_generate env prompt model width height negative_prompt seed num_steps
        guidance_scale input_image
      = fal_generate
          (env\<lparr>fal_post := \<lambda>url. fal_post env (fal_base_url @ ''/fal-ai/flux/schnell'')\<rparr>)
          prompt model width height negative_prompt seed num_steps guidance_scale input_image"
  using assms
  by (simp add: fal_generate_def Let_def
      cong: http_outcome.case_cong sum.case_cong option.case_cong list.case_cong if_cong)

lemma fal_generate_default_proceeds:
  assumes "fal_model_endpoints model = None" and "fal_api_key env \<noteq> []"
    and "\<forall>payload headers. fal_post env ''https://fal.run/fal-ai/flux/schnell'' payload headers
           = Response 200 (Inr \<lparr>fr_images = Some (first # others)\<rparr>)"
    and "first ''url'' = Some (PStr img_url)" and "img_url \<noteq> []"
    and "fal_fetch_image env (PStr img_url) = Inr img_tensor"
  shows "fal_generate env prompt model width height negative_prompt seed num_steps
        guidance_scale input_image
      = Inr (img_tensor, format_4f (fal_estimate_credits model width height))"
  using assms by (simp add: fal_generate_def Let_def fal_base_url_def dict_get_def)

lemma vertex_generate_rejects:
  assumes "vx_has_google_cloud env" and "vx_project_id env \<noteq> []"
    and "\<not> startswith model ''imagen''" and "\<not> startswith model ''veo''"
  shows "vertex_generate env prompt model width height negative_prompt seed num_images
      input_image
     = Inl (ValueError (''Unknown model: '' @ model))"
  using assms by (simp add: vertex_generate_def)

text \<open>
  C9 as stated fails for the Vertex adapter: with the package installed and the project
  set, \<open>generate\<close> on the model \<^verbatim>\<open>unknown-model-xyz\<close> raises
  \<^verbatim>\<open>ValueError("Unknown model: unknown-model-xyz")\<close>.
\<close>

theorem vertex_unknown_model_counterexample:
  "vertex_generate demo_vertex_env ''a castle'' ''unknown-model-xyz'' 1024 1024 '''' (- 1) 1 None
     = Inl (ValueError ''Unknown model: unknown-model-xyz'')"
  by (simp add: vertex_generate_def demo_vertex_env_def startswith_def)

text \<open>
  C9 (amended). For every model identifier that is not in the Fal adapter's mapping, the
  Fal \<open>generate\<close> uses the default endpoint \<^verbatim>\<open>fal-ai/flux/schnell\<close> and proceeds: its result
  depends on the network only through that endpoint, and when the key is set and that
  endpoint answers with an image the call returns the image and the estimated credits.
  The Vertex adapter has no endpoint mapping and no default: once the package and the
  project are present, a model whose name starts with neither \<^verbatim>\<open>imagen\<close> nor \<^verbatim>\<open>veo\<close> is
  rejected with \<^verbatim>\<open>ValueError("Unknown model: ...")\<close>.
\<close>

theorem unmapped_model_dispatch:
  "(fal_model_endpoints model = None \<longrightarrow>
      fal_generate env prompt model width height negative_prompt seed num_steps
          guidance_scale input_image
        = fal_generate
            (env\<lparr>fal_post := \<lambda>url. fal_post env (fal_base_url @ ''/fal-ai/flux/schnell'')\<rparr>)
            prompt model width height negative_prompt seed num_steps guidance_scale
            input_image) \<and>
   (fal_model_endpoints model = None \<longrightarrow> fal_api_key env \<noteq> [] \<longrightarrow>
      (\<forall>payload headers.
          fal_post env ''https://fal.run/fal-ai/flux/schnell'' payload headers
            = Response 200 (Inr \<lparr>fr_images = Some (first # others)\<rparr>)) \<longrightarrow>
      first ''url'' = Some (PStr img_url) \<longrightarrow> img_url \<noteq> [] \<longrightarrow>
      fal_fetch_image env (PStr img_url) = Inr img_tensor \<longrightarrow>
      fal_generate env prompt model width height negative_prompt seed num_steps
          guidance_scale input_image
        = Inr (img_tensor, format_4f (fal_estimate_credits model width height))) \<and>
   (vx_has_google_cloud venv \<longrightarrow> vx_project_id venv \<noteq> [] \<longrightarrow>
      \<not> startswith model ''imagen'' \<longrightarrow> \<not> startswith model ''veo'' \<longrightarrow>
      vertex_generate venv prompt model width height negative_prompt seed num_images
          vertex_input_image
        = Inl (ValueError (''Unknown model: '' @ model)))"
  using fal_generate_default_url [of model env prompt width height negative_prompt seed
      num_steps guidance_scale input_image]
    fal_generate_default_proceeds [of model env first others img_url img_tensor prompt width
      height negative_prompt seed num_steps guidance_scale input_image]
    vertex_generate_rejects [of venv model prompt width height negative_prompt seed num_images
      vertex_input_image]
  by blast

theorem unmapped_model_dispatch_witness:
  "fal_model_endpoints ''sdxl-turbo'' = None \<and>
   fal_generate demo_fal_env ''a castle'' ''sdxl-turbo'' 512 512 '''' (- 1) 28 (Finite 7.5) None
     = Inr (''pixels'', ''0.0025'') \<and>
   vertex_generate demo_vertex_env ''a castle'' ''sdxl-turbo'' 512 512 '''' (- 1) 1 None
     = Inl (ValueError ''Unknown model: sdxl-turbo'')"
proof -
  have unmapped: "fal_model_endpoints ''sdxl-turbo'' = None"
    by (simp add: fal_model_endpoints_def)
  have key: "fal_api_key demo_fal_env \<noteq> []"
    by (simp add: demo_fal_env_def)
  have net: "\<forall>payload headers.
      fal_post demo_fal_env ''https://fal.run/fal-ai/flux/schnell'' payload headers
        = Response 200 (Inr \<lparr>fr_images = Some (map_of [(''url'', PStr ''https://cdn/x.png'')] # [])\<rparr>)"
    by (simp add: demo_fal_env_def)
  have url: "map_of [(''url'', PStr ''https://cdn/x.png'')] ''url'' = Some (PStr ''https://cdn/x.png'')"
    by simp
  have fetch: "fal_fetch_image demo_fal_env (PStr ''https://cdn/x.png'') = Inr ''pixels''"
    by (simp add: demo_fal_env_def)
  have credits: "format_4f (fal_estimate_credits ''sdxl-turbo'' 512 512) = ''0.0025''"
    by (simp add: fal_estimate_credits_def fal_base_costs_def fmul_def format_4f_eval Let_def)
  have vertex: "vx_has_google_cloud demo_vertex_env" "vx_project_id demo_vertex_env \<noteq> []"
      "\<not> startswith ''sdxl-turbo'' ''imagen''" "\<not> startswith ''sdxl-turbo'' ''veo''"
    by (simp_all add: demo_vertex_env_def startswith_def)
  note t = unmapped_model_dispatch [of "''sdxl-turbo''" demo_fal_env "''a castle''" 512 512
      "''''" "- 1" 28 "Finite 7.5" None "map_of [(''url'', PStr ''https://cdn/x.png'')]" "[]"
      "''https://cdn/x.png''" "''pixels''" demo_vertex_env 1 None]
  from t unmapped key net url fetch
  have g: "fal_generate demo_fal_env ''a castle'' ''sdxl-turbo'' 512 512 '''' (- 1) 28
        (Finite 7.5) None
      = Inr (''pixels'', format_4f (fal_estimate_credits ''sdxl-turbo'' 512 512))"
    by blast
  from t vertex
  have v: "vertex_generate demo_vertex_env ''a castle'' ''sdxl-turbo'' 512 512 '''' (- 1) 1 None
      = Inl (ValueError (''Unknown model: '' @ ''sdxl-turbo''))"
    by blast
  show ?thesis
    using unmapped g v credits by simp
qed

end
